theory Spec2Isabelle
  imports Main
begin

section \<open>Python strings\<close>

text \<open>
  A Python \<^verbatim>\<open>str\<close> is a sequence of Unicode code points, and \<^verbatim>\<open>len\<close>, slicing and the
  character classes of \<^verbatim>\<open>re\<close> all count code points. A string is therefore modelled as the
  list of its code points (\<^verbatim>\<open>ord\<close> of each character); \<open>ustr\<close> turns an ASCII literal
  of the source into that list.
\<close>

type_synonym codepoint = int
type_synonym pystr = "codepoint list"

definition ustr :: "string \<Rightarrow> pystr" where
  "ustr s = map of_char s"

text \<open>
  \<^verbatim>\<open>str.isspace\<close> for one character (CPython's \<^verbatim>\<open>_PyUnicode_IsWhitespace\<close>). Both
  \<^verbatim>\<open>str.strip()\<close> and the class \<^verbatim>\<open>\s\<close> of a \<^verbatim>\<open>str\<close> pattern use this set.
\<close>

definition py_isspace :: "codepoint \<Rightarrow> bool" where
  "py_isspace c \<longleftrightarrow>
     (0x09 \<le> c \<and> c \<le> 0x0D) \<or> (0x1C \<le> c \<and> c \<le> 0x20) \<or> c = 0x85 \<or> c = 0xA0 \<or>
     c = 0x1680 \<or> (0x2000 \<le> c \<and> c \<le> 0x200A) \<or> c = 0x2028 \<or> c = 0x2029 \<or>
     c = 0x202F \<or> c = 0x205F \<or> c = 0x3000"

text \<open>\<^verbatim>\<open>s.strip()\<close>: leading and trailing whitespace removed.\<close>

definition py_strip :: "pystr \<Rightarrow> pystr" where
  "py_strip s = rev (dropWhile py_isspace (rev (dropWhile py_isspace s)))"

text \<open>\<^verbatim>\<open>s.startswith(p)\<close> and \<^verbatim>\<open>p in s\<close> (substring test).\<close>

definition startswith :: "pystr \<Rightarrow> pystr \<Rightarrow> bool" where
  "startswith s p \<longleftrightarrow> take (length p) s = p"

fun py_in :: "pystr \<Rightarrow> pystr \<Rightarrow> bool" where
  "py_in p [] = (p = [])"
| "py_in p (c # t) = (startswith (c # t) p \<or> py_in p t)"

section \<open>Regular expressions as backtracking matchers\<close>

text \<open>
  Every pattern of the source is written as a matcher in continuation-passing style, one
  combinator per regex construct, with the backtracking order of \<^verbatim>\<open>re\<close>: a matcher takes
  the continuation \<open>k\<close> (the rest of the pattern) and the remaining input, and returns the
  result of the first successful alternative, or \<open>None\<close>. A capturing combinator hands the
  captured text to its continuation.
\<close>

text \<open>A literal.\<close>

definition lit :: "pystr \<Rightarrow> (pystr \<Rightarrow> 'r option) \<Rightarrow> pystr \<Rightarrow> 'r option" where
  "lit p k s = (if startswith s p then k (drop (length p) s) else None)"

text \<open>An optional literal, greedy: \<^verbatim>\<open>p?\<close>.\<close>

definition opt_lit :: "pystr \<Rightarrow> (pystr \<Rightarrow> 'r option) \<Rightarrow> pystr \<Rightarrow> 'r option" where
  "opt_lit p k s = (case lit p k s of Some r \<Rightarrow> Some r | None \<Rightarrow> k s)"

text \<open>Alternation \<^verbatim>\<open>a|b\<close>: the left branch first.\<close>

definition alt :: "(pystr \<Rightarrow> 'r option) \<Rightarrow> (pystr \<Rightarrow> 'r option) \<Rightarrow> pystr \<Rightarrow> 'r option" where
  "alt a b s = (case a s of Some r \<Rightarrow> Some r | None \<Rightarrow> b s)"

text \<open>Alternation of literals \<^verbatim>\<open>(?:p1|p2|...)\<close>, in order.\<close>

fun alt_lits :: "pystr list \<Rightarrow> (pystr \<Rightarrow> 'r option) \<Rightarrow> pystr \<Rightarrow> 'r option" where
  "alt_lits [] k s = None"
| "alt_lits (p # ps) k s = (case lit p k s of Some r \<Rightarrow> Some r | None \<Rightarrow> alt_lits ps k s)"

text \<open>
  A greedy repetition of a character class, at most \<open>n\<close> times: as many characters as
  possible first, then one fewer on failure of the continuation. \<open>acc\<close> is the text
  consumed so far.
\<close>

fun rep_greedy ::
  "(codepoint \<Rightarrow> bool) \<Rightarrow> nat \<Rightarrow> (pystr \<Rightarrow> pystr \<Rightarrow> 'r option) \<Rightarrow> pystr \<Rightarrow> pystr \<Rightarrow> 'r option"
where
  "rep_greedy P 0 k acc s = k acc s"
| "rep_greedy P (Suc n) k acc [] = k acc []"
| "rep_greedy P (Suc n) k acc (c # t) =
     (if P c then
        (case rep_greedy P n k (acc @ [c]) t of Some r \<Rightarrow> Some r | None \<Rightarrow> k acc (c # t))
      else k acc (c # t))"

text \<open>The unbounded greedy repetition \<^verbatim>\<open>[class]*\<close>.\<close>

fun greedy_from ::
  "(codepoint \<Rightarrow> bool) \<Rightarrow> (pystr \<Rightarrow> pystr \<Rightarrow> 'r option) \<Rightarrow> pystr \<Rightarrow> pystr \<Rightarrow> 'r option"
where
  "greedy_from P k acc [] = k acc []"
| "greedy_from P k acc (c # t) =
     (if P c then
        (case greedy_from P k (acc @ [c]) t of Some r \<Rightarrow> Some r | None \<Rightarrow> k acc (c # t))
      else k acc (c # t))"

definition star :: "(codepoint \<Rightarrow> bool) \<Rightarrow> (pystr \<Rightarrow> pystr \<Rightarrow> 'r option) \<Rightarrow> pystr \<Rightarrow> 'r option" where
  "star P k s = greedy_from P k [] s"

text \<open>\<^verbatim>\<open>[class]+\<close>: the star, never backtracking below one character.\<close>

definition plus :: "(codepoint \<Rightarrow> bool) \<Rightarrow> (pystr \<Rightarrow> pystr \<Rightarrow> 'r option) \<Rightarrow> pystr \<Rightarrow> 'r option" where
  "plus P k s = star P (\<lambda>g rest. if g = [] then None else k g rest) s"

text \<open>\<^verbatim>\<open>[class]{1,n}\<close>.\<close>

definition rep1 ::
  "(codepoint \<Rightarrow> bool) \<Rightarrow> nat \<Rightarrow> (pystr \<Rightarrow> pystr \<Rightarrow> 'r option) \<Rightarrow> pystr \<Rightarrow> 'r option" where
  "rep1 P n k s = rep_greedy P n (\<lambda>g rest. if g = [] then None else k g rest) [] s"

text \<open>
  The lazy skip \<^verbatim>\<open>.*?\<close> under \<^verbatim>\<open>re.DOTALL\<close> (any character): the continuation is tried
  at the current position first, then one character further.
\<close>

fun skip_lazy :: "(pystr \<Rightarrow> 'r option) \<Rightarrow> pystr \<Rightarrow> 'r option" where
  "skip_lazy k [] = k []"
| "skip_lazy k (c # t) = (case k (c # t) of Some r \<Rightarrow> Some r | None \<Rightarrow> skip_lazy k t)"

text \<open>The lazy repetition \<^verbatim>\<open>[class]*?\<close> with its text captured.\<close>

fun lazy_from ::
  "(codepoint \<Rightarrow> bool) \<Rightarrow> (pystr \<Rightarrow> pystr \<Rightarrow> 'r option) \<Rightarrow> pystr \<Rightarrow> pystr \<Rightarrow> 'r option"
where
  "lazy_from P k acc [] = k acc []"
| "lazy_from P k acc (c # t) =
     (case k acc (c # t) of
        Some r \<Rightarrow> Some r
      | None \<Rightarrow> if P c then lazy_from P k (acc @ [c]) t else None)"

text \<open>\<^verbatim>\<open>[class]+?\<close>: one character, then the lazy repetition.\<close>

definition plus_lazy ::
  "(codepoint \<Rightarrow> bool) \<Rightarrow> (pystr \<Rightarrow> pystr \<Rightarrow> 'r option) \<Rightarrow> pystr \<Rightarrow> 'r option" where
  "plus_lazy P k s = (case s of [] \<Rightarrow> None | c # t \<Rightarrow> if P c then lazy_from P k [c] t else None)"

text \<open>Exactly \<open>n\<close> characters of a class: \<^verbatim>\<open>[class]{n}\<close>.\<close>

fun exactly :: "(codepoint \<Rightarrow> bool) \<Rightarrow> nat \<Rightarrow> (pystr \<Rightarrow> 'r option) \<Rightarrow> pystr \<Rightarrow> 'r option" where
  "exactly P 0 k s = k s"
| "exactly P (Suc n) k [] = None"
| "exactly P (Suc n) k (c # t) = (if P c then exactly P n k t else None)"

text \<open>A positive lookahead \<^verbatim>\<open>(?=m)\<close> consumes nothing.\<close>

definition lookahead :: "(pystr \<Rightarrow> unit option) \<Rightarrow> (pystr \<Rightarrow> 'r option) \<Rightarrow> pystr \<Rightarrow> 'r option" where
  "lookahead m k s = (case m s of Some _ \<Rightarrow> k s | None \<Rightarrow> None)"

text \<open>
  \<^verbatim>\<open>$\<close> without \<^verbatim>\<open>re.MULTILINE\<close>: at the end of the string, or just before a newline
  that ends the string.
\<close>

definition at_end :: "(pystr \<Rightarrow> 'r option) \<Rightarrow> pystr \<Rightarrow> 'r option" where
  "at_end k s = (if s = [] \<or> s = [0x0A] then k s else None)"

text \<open>The end of a pattern: the match succeeds, and what is left of the input is returned.\<close>

definition accept :: "pystr \<Rightarrow> pystr option" where
  "accept s = Some s"

text \<open>
  \<^verbatim>\<open>re.search\<close>: the matcher is tried at every position from the left (also at the end of
  the string), and the first success wins.
\<close>

fun re_search :: "(pystr \<Rightarrow> 'r option) \<Rightarrow> pystr \<Rightarrow> 'r option" where
  "re_search m [] = m []"
| "re_search m (c # t) = (case m (c # t) of Some r \<Rightarrow> Some r | None \<Rightarrow> re_search m t)"

text \<open>
  \<^verbatim>\<open>match.group(0)\<close> of a matcher that returns the input left after the match: the text
  between the start of the match and what is left.
\<close>

definition group0 :: "(pystr \<Rightarrow> pystr option) \<Rightarrow> pystr \<Rightarrow> (pystr \<times> pystr) option" where
  "group0 m s = (case m s of None \<Rightarrow> None | Some rest \<Rightarrow> Some (take (length s - length rest) s, rest))"

text \<open>
  The scan shared by \<^verbatim>\<open>re.findall\<close> and \<^verbatim>\<open>re.sub\<close>: the non-overlapping matches from left
  to right, with the characters between them. A matcher returns its result and the input
  left after the match; the next match is looked for there. Every pattern scanned in this
  program consumes at least one character; for a matcher that consumes nothing the scan
  steps over one character, so that it always ends.
\<close>

datatype 'a piece = Unmatched codepoint | Matched 'a

function re_scan :: "(pystr \<Rightarrow> ('a \<times> pystr) option) \<Rightarrow> pystr \<Rightarrow> 'a piece list" where
  "re_scan m s =
     (case m s of
        Some (g, rest) \<Rightarrow>
          if length rest < length s then Matched g # re_scan m rest
          else (case s of [] \<Rightarrow> [Matched g] | c # t \<Rightarrow> Matched g # Unmatched c # re_scan m t)
      | None \<Rightarrow> (case s of [] \<Rightarrow> [] | c # t \<Rightarrow> Unmatched c # re_scan m t))"
  by pat_completeness auto
termination
  by (relation "measure (\<lambda>(m, s). length s)") auto

declare re_scan.simps [simp del]

text \<open>\<^verbatim>\<open>re.findall\<close>: the results of the matches, in order.\<close>

fun matches_of :: "'a piece list \<Rightarrow> 'a list" where
  "matches_of [] = []"
| "matches_of (Unmatched c # ps) = matches_of ps"
| "matches_of (Matched g # ps) = g # matches_of ps"

definition re_findall :: "(pystr \<Rightarrow> ('a \<times> pystr) option) \<Rightarrow> pystr \<Rightarrow> 'a list" where
  "re_findall m s = matches_of (re_scan m s)"

text \<open>\<^verbatim>\<open>re.sub\<close> with a replacement function: each match replaced, the rest copied.\<close>

fun substitute :: "('a \<Rightarrow> pystr) \<Rightarrow> 'a piece list \<Rightarrow> pystr" where
  "substitute f [] = []"
| "substitute f (Unmatched c # ps) = c # substitute f ps"
| "substitute f (Matched g # ps) = f g @ substitute f ps"

definition re_sub :: "(pystr \<Rightarrow> ('a \<times> pystr) option) \<Rightarrow> ('a \<Rightarrow> pystr) \<Rightarrow> pystr \<Rightarrow> pystr" where
  "re_sub m f s = substitute f (re_scan m s)"

text \<open>
  \<^verbatim>\<open>re.split\<close> on a lookahead \<^verbatim>\<open>(?=p)\<close> for a literal \<open>p\<close>: the string is cut before every
  occurrence of \<open>p\<close>; each piece after the first starts with \<open>p\<close>, and an occurrence at
  position 0 gives an empty first piece. \<open>cur\<close> is the piece being collected.
\<close>

fun split_before :: "pystr \<Rightarrow> pystr \<Rightarrow> pystr \<Rightarrow> pystr list" where
  "split_before p cur [] = [cur]"
| "split_before p cur (c # t) =
     (if startswith (c # t) p then cur # split_before p [c] t
      else split_before p (cur @ [c]) t)"

definition re_split_lookahead :: "pystr \<Rightarrow> pystr \<Rightarrow> pystr list" where
  "re_split_lookahead p s = split_before p [] s"

section \<open>Text normalization\<close>

text \<open>
  What the program uses of Python's library but does not define: the table
  \<^verbatim>\<open>html.entities.html5\<close> of named character references (a dictionary from names such as
  \<^verbatim>\<open>amp;\<close> to their text) and the Unicode property behind the class \<^verbatim>\<open>\d\<close>
  (\<^verbatim>\<open>str.isdecimal\<close> of one character). Both are parameters of the model.
\<close>

record pylib =
  html5 :: "pystr \<rightharpoonup> pystr"
  isdecimal :: "codepoint \<Rightarrow> bool"

text \<open>The classes of \<^verbatim>\<open>html._charref\<close>.\<close>

definition ascii_digit :: "codepoint \<Rightarrow> bool" where
  "ascii_digit c \<longleftrightarrow> 0x30 \<le> c \<and> c \<le> 0x39"

definition hex_digit :: "codepoint \<Rightarrow> bool" where
  "hex_digit c \<longleftrightarrow> ascii_digit c \<or> (0x61 \<le> c \<and> c \<le> 0x66) \<or> (0x41 \<le> c \<and> c \<le> 0x46)"

definition name_char :: "codepoint \<Rightarrow> bool" where
  "name_char c \<longleftrightarrow> c \<notin> {0x09, 0x0A, 0x0C, 0x20, 0x3C, 0x26, 0x23, 0x3B}"

text \<open>
  \<^verbatim>\<open>_charref = re.compile(r'&(#[0-9]+;?|#[xX][0-9a-fA-F]+;?|[^\t\n\f <&#;]{1,32};?)')\<close>
  The result is group 1 (the reference without its \<^verbatim>\<open>&\<close>) and the input left.
\<close>

definition charref_re :: "pystr \<Rightarrow> (pystr \<times> pystr) option" where
  "charref_re =
     lit (ustr ''&'')
       (group0
          (alt (lit (ustr ''#'') (plus ascii_digit (\<lambda>_. opt_lit (ustr '';'') accept)))
          (alt (lit (ustr ''#'')
                  (exactly (\<lambda>c. c = 0x78 \<or> c = 0x58) 1
                     (plus hex_digit (\<lambda>_. opt_lit (ustr '';'') accept))))
               (rep1 name_char 32 (\<lambda>_. opt_lit (ustr '';'') accept)))))"

text \<open>\<^verbatim>\<open>s.rstrip(';')\<close> and \<^verbatim>\<open>int(s, base)\<close> on a string of digits of that base.\<close>

definition rstrip_semicolon :: "pystr \<Rightarrow> pystr" where
  "rstrip_semicolon s = rev (dropWhile (\<lambda>c. c = 0x3B) (rev s))"

definition digit_value :: "codepoint \<Rightarrow> int" where
  "digit_value c =
     (if ascii_digit c then c - 0x30
      else if 0x61 \<le> c \<and> c \<le> 0x66 then c - 0x61 + 10
      else c - 0x41 + 10)"

definition py_int :: "int \<Rightarrow> pystr \<Rightarrow> int" where
  "py_int base s = foldl (\<lambda>a c. a * base + digit_value c) 0 s"

text \<open>\<^verbatim>\<open>html._invalid_charrefs\<close> and \<^verbatim>\<open>html._invalid_codepoints\<close>.\<close>

definition invalid_charrefs :: "(int \<times> codepoint) list" where
  "invalid_charrefs =
     [(0x00, 0xFFFD), (0x0D, 0x0D), (0x80, 0x20AC), (0x81, 0x81), (0x82, 0x201A),
      (0x83, 0x0192), (0x84, 0x201E), (0x85, 0x2026), (0x86, 0x2020), (0x87, 0x2021),
      (0x88, 0x02C6), (0x89, 0x2030), (0x8A, 0x0160), (0x8B, 0x2039), (0x8C, 0x0152),
      (0x8D, 0x8D), (0x8E, 0x017D), (0x8F, 0x8F), (0x90, 0x90), (0x91, 0x2018),
      (0x92, 0x2019), (0x93, 0x201C), (0x94, 0x201D), (0x95, 0x2022), (0x96, 0x2013),
      (0x97, 0x2014), (0x98, 0x02DC), (0x99, 0x2122), (0x9A, 0x0161), (0x9B, 0x203A),
      (0x9C, 0x0153), (0x9D, 0x9D), (0x9E, 0x017E), (0x9F, 0x0178)]"

definition invalid_codepoint :: "int \<Rightarrow> bool" where
  "invalid_codepoint n \<longleftrightarrow>
     (0x1 \<le> n \<and> n \<le> 0x8) \<or> (0xE \<le> n \<and> n \<le> 0x1F) \<or> (0x7F \<le> n \<and> n \<le> 0x9F) \<or>
     (0xFDD0 \<le> n \<and> n \<le> 0xFDEF) \<or> n = 0xB \<or>
     (0xFFFE \<le> n \<and> n \<le> 0x10FFFF \<and> (n mod 0x10000 = 0xFFFE \<or> n mod 0x10000 = 0xFFFF))"

text \<open>
  The named branch of \<^verbatim>\<open>html._replace_charref\<close>:
  \<^verbatim>\<open>for x in range(len(s)-1, 1, -1): if s[:x] in _html5: return _html5[s[:x]] + s[x:]\<close>
  and \<^verbatim>\<open>'&' + s\<close> when the loop ends.
\<close>

fun longest_name :: "(pystr \<rightharpoonup> pystr) \<Rightarrow> pystr \<Rightarrow> nat \<Rightarrow> pystr" where
  "longest_name tbl s 0 = ustr ''&'' @ s"
| "longest_name tbl s (Suc x) =
     (if Suc x \<le> 1 then ustr ''&'' @ s
      else (case tbl (take (Suc x) s) of
              Some v \<Rightarrow> v @ drop (Suc x) s
            | None \<Rightarrow> longest_name tbl s x))"

definition replace_charref :: "pylib \<Rightarrow> pystr \<Rightarrow> pystr" where
  "replace_charref lib s =
     (if take 1 s = ustr ''#'' then
        (let num = (if take 1 (drop 1 s) = ustr ''x'' \<or> take 1 (drop 1 s) = ustr ''X''
                    then py_int 16 (rstrip_semicolon (drop 2 s))
                    else py_int 10 (rstrip_semicolon (drop 1 s)))
         in (case map_of invalid_charrefs num of
               Some c \<Rightarrow> [c]
             | None \<Rightarrow>
                 if (0xD800 \<le> num \<and> num \<le> 0xDFFF) \<or> num > 0x10FFFF then [0xFFFD]
                 else if invalid_codepoint num then []
                 else [num]))
      else (case html5 lib s of
              Some v \<Rightarrow> v
            | None \<Rightarrow> longest_name (html5 lib) s (length s - 1)))"

text \<open>\<^verbatim>\<open>html.unescape\<close>, called by \<^verbatim>\<open>_decode_html_entities\<close>.\<close>

definition html_unescape :: "pylib \<Rightarrow> pystr \<Rightarrow> pystr" where
  "html_unescape lib s =
     (if 0x26 \<notin> set s then s else re_sub charref_re (replace_charref lib) s)"

definition decode_html_entities :: "pylib \<Rightarrow> pystr \<Rightarrow> pystr" where
  "decode_html_entities lib text = html_unescape lib text"

text \<open>The pattern \<^verbatim>\<open>\s+\<close> of \<^verbatim>\<open>_clean_text\<close>.\<close>

definition ws_run :: "pystr \<Rightarrow> (pystr \<times> pystr) option" where
  "ws_run = plus py_isspace (\<lambda>g rest. Some (g, rest))"

text \<open>
  \<^verbatim>\<open>_clean_text\<close>: entities decoded, every run of whitespace replaced by one space, the
  result stripped.
\<close>

definition clean_text :: "pylib \<Rightarrow> pystr \<Rightarrow> pystr" where
  "clean_text lib text =
     py_strip (re_sub ws_run (\<lambda>_. ustr '' '') (decode_html_entities lib text))"

text \<open>
  An excerpt of \<^verbatim>\<open>html.entities.html5\<close> and the ASCII digits, for running the model on
  examples.
\<close>

definition html5_excerpt :: "(pystr \<times> pystr) list" where
  \<open>html5_excerpt =
     [(ustr ''amp;'', ustr ''&''), (ustr ''amp'', ustr ''&''),
      (ustr ''lt;'', ustr ''<''), (ustr ''lt'', ustr ''<''),
      (ustr ''gt;'', ustr ''>''), (ustr ''gt'', ustr ''>''),
      (ustr ''quot;'', ustr ''"''), (ustr ''quot'', ustr ''"''),
      (ustr ''apos;'', [0x27]),
      (ustr ''nbsp;'', [0xA0]), (ustr ''nbsp'', [0xA0])]\<close>

definition example_lib :: pylib where
  "example_lib = \<lparr> html5 = map_of html5_excerpt, isdecimal = ascii_digit \<rparr>"

section \<open>The scraper: data model\<close>

record certification_rating =
  rating :: pystr
  note' :: pystr

record certification_item =
  country :: pystr
  ratings :: "certification_rating list"

record category_info =
  severity :: pystr
  items :: "pystr list"

record parental_guide =
  imdb_id :: pystr
  title :: pystr
  url :: pystr
  content_rating :: pystr
  sex_nudity :: category_info
  violence_gore :: category_info
  profanity :: category_info
  alcohol_drugs_smoking :: category_info
  frightening_intense :: category_info
  certifications :: "certification_item list"

text \<open>The keys of \<^verbatim>\<open>CATEGORY_IDS\<close> and the section id of each.\<close>

datatype category = Sex_nudity | Violence_gore | Profanity | Alcohol_drugs_smoking | Frightening_intense

fun CATEGORY_IDS :: "category \<Rightarrow> pystr" where
  "CATEGORY_IDS Sex_nudity = ustr ''nudity''"
| "CATEGORY_IDS Violence_gore = ustr ''violence''"
| "CATEGORY_IDS Profanity = ustr ''profanity''"
| "CATEGORY_IDS Alcohol_drugs_smoking = ustr ''alcohol''"
| "CATEGORY_IDS Frightening_intense = ustr ''frightening''"

definition BASE_URL :: pystr where
  "BASE_URL = ustr ''https://www.imdb.com''"

section \<open>The scraper: extraction\<close>

text \<open>
  The tail \<^verbatim>\<open>[^>]*>([^<]+)\<close> that five of the patterns share: the rest of a tag, its
  closing \<^verbatim>\<open>>\<close>, and the text up to the next \<^verbatim>\<open><\<close> as the group.
\<close>

definition tag_text :: "(pystr \<Rightarrow> pystr \<Rightarrow> 'r option) \<Rightarrow> pystr \<Rightarrow> 'r option" where
  "tag_text k = star (\<lambda>c. c \<noteq> 0x3E) (\<lambda>_. lit (ustr ''>'') (plus (\<lambda>c. c \<noteq> 0x3C) k))"

text \<open>\<^verbatim>\<open>r'data-testid="subtitle"[^>]*>([^<]+)'\<close>\<close>

definition subtitle_re :: "pystr \<Rightarrow> pystr option" where
  \<open>subtitle_re = lit (ustr ''data-testid="subtitle"'') (tag_text (\<lambda>g rest. Some g))\<close>

text \<open>\<^verbatim>\<open>r'<title>([^<]+)</title>'\<close>\<close>

definition page_title_re :: "pystr \<Rightarrow> pystr option" where
  "page_title_re =
     lit (ustr ''<title>'') (plus (\<lambda>c. c \<noteq> 0x3C) (\<lambda>g. lit (ustr ''</title>'') (\<lambda>rest. Some g)))"

text \<open>
  \<^verbatim>\<open>r'^(.+?)\s*\(\d{4}\)'\<close>, without \<^verbatim>\<open>re.DOTALL\<close>: the dot is any character but a
  newline. The pattern starts with \<^verbatim>\<open>^\<close>, so \<^verbatim>\<open>re.search\<close> can match it at position 0
  only.
\<close>

definition year_suffix_re :: "pylib \<Rightarrow> pystr \<Rightarrow> pystr option" where
  "year_suffix_re lib =
     plus_lazy (\<lambda>c. c \<noteq> 0x0A)
       (\<lambda>g. star py_isspace
          (\<lambda>_. lit (ustr ''('') (exactly (isdecimal lib) 4 (lit (ustr '')'') (\<lambda>rest. Some g)))))"

definition extract_title :: "pylib \<Rightarrow> pystr \<Rightarrow> pystr" where
  "extract_title lib html_content =
     (case re_search subtitle_re html_content of
        Some g \<Rightarrow> clean_text lib g
      | None \<Rightarrow>
          (case re_search page_title_re html_content of
             Some title_text \<Rightarrow>
               (case year_suffix_re lib title_text of
                  Some g \<Rightarrow> clean_text lib g
                | None \<Rightarrow> [])
           | None \<Rightarrow> []))"

text \<open>
  \<^verbatim>\<open>r'data-testid="content-rating".*?Motion Picture Rating.*?ipc-html-content-inner-div[^>]*>([^<]+)'\<close>
  with \<^verbatim>\<open>re.DOTALL\<close>.
\<close>

definition content_rating_re :: "pystr \<Rightarrow> pystr option" where
  \<open>content_rating_re =
     lit (ustr ''data-testid="content-rating"'')
       (skip_lazy (lit (ustr ''Motion Picture Rating'')
          (skip_lazy (lit (ustr ''ipc-html-content-inner-div'') (tag_text (\<lambda>g rest. Some g))))))\<close>

definition extract_content_rating :: "pylib \<Rightarrow> pystr \<Rightarrow> pystr" where
  "extract_content_rating lib html_content =
     (case re_search content_rating_re html_content of
        Some g \<Rightarrow> clean_text lib g
      | None \<Rightarrow> [])"

text \<open>
  \<^verbatim>\<open>rf'id="{section_id}".*?(?=id="(?:nudity|violence|profanity|alcohol|frightening|certificates)"|$)'\<close>
  with \<^verbatim>\<open>re.DOTALL\<close>. The section id is put into the pattern as it is; the five ids of
  \<^verbatim>\<open>CATEGORY_IDS\<close> have no character that is special in a pattern, so it is a literal.
\<close>

definition section_anchor :: "pystr \<Rightarrow> pystr" where
  \<open>section_anchor section_id = ustr ''id="'' @ section_id @ ustr ''"''\<close>

definition section_names :: "pystr list" where
  "section_names =
     [ustr ''nudity'', ustr ''violence'', ustr ''profanity'', ustr ''alcohol'',
      ustr ''frightening'', ustr ''certificates'']"

definition section_stop :: "pystr \<Rightarrow> unit option" where
  \<open>section_stop =
     alt (lit (ustr ''id="'') (alt_lits section_names (lit (ustr ''"'') (\<lambda>_. Some ()))))
         (at_end (\<lambda>_. Some ()))\<close>

definition section_re :: "pystr \<Rightarrow> pystr \<Rightarrow> (pystr \<times> pystr) option" where
  "section_re section_id =
     group0 (lit (section_anchor section_id) (skip_lazy (lookahead section_stop accept)))"

definition find_section_content :: "pystr \<Rightarrow> pystr \<Rightarrow> pystr" where
  "find_section_content html_content section_id =
     (case re_search (section_re section_id) html_content of
        Some (g, rest) \<Rightarrow> g
      | None \<Rightarrow> [])"

text \<open>\<^verbatim>\<open>r'ipc-signpost__text[^>]*>([^<]+)'\<close>\<close>

definition signpost_re :: "pystr \<Rightarrow> (pystr \<times> pystr) option" where
  "signpost_re = lit (ustr ''ipc-signpost__text'') (tag_text (\<lambda>g rest. Some (g, rest)))"

definition extract_category_severity :: "pylib \<Rightarrow> pystr \<Rightarrow> pystr \<Rightarrow> pystr" where
  "extract_category_severity lib html_content section_id =
     (let section_content = find_section_content html_content section_id in
      if section_content = [] then []
      else (case re_search signpost_re section_content of
              Some (g, rest) \<Rightarrow> clean_text lib g
            | None \<Rightarrow> []))"

text \<open>
  \<^verbatim>\<open>r'data-testid="item-html".*?ipc-html-content-inner-div[^>]*>([^<]+)'\<close> with
  \<^verbatim>\<open>re.DOTALL\<close>.
\<close>

definition item_re :: "pystr \<Rightarrow> (pystr \<times> pystr) option" where
  \<open>item_re =
     lit (ustr ''data-testid="item-html"'')
       (skip_lazy (lit (ustr ''ipc-html-content-inner-div'') (tag_text (\<lambda>g rest. Some (g, rest)))))\<close>

text \<open>The loop \<^verbatim>\<open>for match in matches\<close> of \<^verbatim>\<open>_extract_category_items\<close>.\<close>

fun append_items :: "pylib \<Rightarrow> pystr list \<Rightarrow> pystr list \<Rightarrow> pystr list" where
  "append_items lib acc [] = acc"
| "append_items lib acc (m # matches) =
     (let text = clean_text lib m in
      if text \<noteq> [] then append_items lib (acc @ [text]) matches
      else append_items lib acc matches)"

definition extract_category_items :: "pylib \<Rightarrow> pystr \<Rightarrow> pystr \<Rightarrow> pystr list" where
  "extract_category_items lib html_content section_id =
     (let section_content = find_section_content html_content section_id in
      if section_content = [] then []
      else append_items lib [] (re_findall item_re section_content))"

definition extract_category :: "pylib \<Rightarrow> pystr \<Rightarrow> pystr \<Rightarrow> category_info" where
  "extract_category lib html_content section_id =
     \<lparr> severity = extract_category_severity lib html_content section_id,
       items = extract_category_items lib html_content section_id \<rparr>"

text \<open>\<^verbatim>\<open>r'data-testid="certificates-container"(.*?)(?:</section>|<footer)'\<close> with \<^verbatim>\<open>re.DOTALL\<close>.\<close>

definition cert_section_re :: "pystr \<Rightarrow> (pystr \<times> pystr) option" where
  \<open>cert_section_re =
     group0 (lit (ustr ''data-testid="certificates-container"'')
       (skip_lazy (alt (lit (ustr ''</section>'') accept) (lit (ustr ''<footer'') accept))))\<close>

text \<open>\<^verbatim>\<open>r'ipc-metadata-list-item__label[^>]*>([^<]+)'\<close>\<close>

definition country_re :: "pystr \<Rightarrow> (pystr \<times> pystr) option" where
  "country_re = lit (ustr ''ipc-metadata-list-item__label'') (tag_text (\<lambda>g rest. Some (g, rest)))"

text \<open>
  \<^verbatim>\<open>r'ipc-metadata-list-item__list-content-item--link[^>]*>([^<]+)</a>'\<close>
  \<^verbatim>\<open>r'(?:<span class="ipc-metadata-list-item__list-content-item--subText">([^<]*)</span>)?'\<close>
  \<^verbatim>\<open>re.findall\<close> gives the pair of the groups, the second empty when the optional part did
  not match.
\<close>

definition rating_re :: "pystr \<Rightarrow> ((pystr \<times> pystr) \<times> pystr) option" where
  \<open>rating_re =
     lit (ustr ''ipc-metadata-list-item__list-content-item--link'')
       (tag_text (\<lambda>g1. lit (ustr ''</a>'')
          (\<lambda>s. case lit (ustr ''<span class="ipc-metadata-list-item__list-content-item--subText">'')
                      (star (\<lambda>c. c \<noteq> 0x3C)
                         (\<lambda>g2. lit (ustr ''</span>'') (\<lambda>rest. Some ((g1, g2), rest)))) s of
                  Some r \<Rightarrow> Some r
                | None \<Rightarrow> Some ((g1, []), s))))\<close>

text \<open>
  The loop \<^verbatim>\<open>for rating_match in rating_matches\<close>. A match is a pair, so
  \<^verbatim>\<open>len(rating_match) > 1\<close> holds and the note is always the cleaned second group.
\<close>

fun append_ratings ::
  "pylib \<Rightarrow> certification_rating list \<Rightarrow> (pystr \<times> pystr) list \<Rightarrow> certification_rating list" where
  "append_ratings lib rs [] = rs"
| "append_ratings lib rs (rating_match # rating_matches) =
     (let rating_text = clean_text lib (fst rating_match);
          note_text = clean_text lib (snd rating_match)
      in if rating_text \<noteq> []
         then append_ratings lib (rs @ [\<lparr> rating = rating_text, note' = note_text \<rparr>]) rating_matches
         else append_ratings lib rs rating_matches)"

text \<open>The loop \<^verbatim>\<open>for block in country_blocks\<close>, with its two \<^verbatim>\<open>continue\<close>.\<close>

fun append_certifications ::
  "pylib \<Rightarrow> certification_item list \<Rightarrow> pystr list \<Rightarrow> certification_item list" where
  "append_certifications lib certs [] = certs"
| "append_certifications lib certs (block # country_blocks) =
     (if \<not> py_in (ustr ''certificates-item'') block
      then append_certifications lib certs country_blocks
      else
        (let country_text = (case re_search country_re block of
                               Some (g, rest) \<Rightarrow> clean_text lib g
                             | None \<Rightarrow> [])
         in if country_text = [] then append_certifications lib certs country_blocks
            else
              (let rating_list = append_ratings lib [] (re_findall rating_re block)
               in if rating_list \<noteq> []
                  then append_certifications lib
                         (certs @ [\<lparr> country = country_text, ratings = rating_list \<rparr>])
                         country_blocks
                  else append_certifications lib certs country_blocks)))"

text \<open>\<^verbatim>\<open>re.split(r'(?=data-testid="certificates-item")', cert_section)\<close>\<close>

definition country_blocks_of :: "pystr \<Rightarrow> pystr list" where
  \<open>country_blocks_of cert_section =
     re_split_lookahead (ustr ''data-testid="certificates-item"'') cert_section\<close>

definition extract_certifications :: "pylib \<Rightarrow> pystr \<Rightarrow> certification_item list" where
  "extract_certifications lib html_content =
     (case re_search cert_section_re html_content of
        None \<Rightarrow> []
      | Some (cert_section, rest) \<Rightarrow>
          append_certifications lib [] (country_blocks_of cert_section))"

text \<open>
  The record that \<^verbatim>\<open>scrape\<close> builds from the text of the response (the operation that the
  design document calls extract: a function of the document, the id and the url only).
\<close>

definition extract_guide :: "pylib \<Rightarrow> pystr \<Rightarrow> pystr \<Rightarrow> pystr \<Rightarrow> parental_guide" where
  "extract_guide lib imdb_id' url' html_content =
     \<lparr> imdb_id = imdb_id',
       title = extract_title lib html_content,
       url = url',
       content_rating = extract_content_rating lib html_content,
       sex_nudity = extract_category lib html_content (CATEGORY_IDS Sex_nudity),
       violence_gore = extract_category lib html_content (CATEGORY_IDS Violence_gore),
       profanity = extract_category lib html_content (CATEGORY_IDS Profanity),
       alcohol_drugs_smoking = extract_category lib html_content (CATEGORY_IDS Alcohol_drugs_smoking),
       frightening_intense = extract_category lib html_content (CATEGORY_IDS Frightening_intense),
       certifications = extract_certifications lib html_content \<rparr>"

text \<open>The field of a record that holds a category.\<close>

fun category_field :: "category \<Rightarrow> parental_guide \<Rightarrow> category_info" where
  "category_field Sex_nudity g = sex_nudity g"
| "category_field Violence_gore g = violence_gore g"
| "category_field Profanity g = profanity g"
| "category_field Alcohol_drugs_smoking g = alcohol_drugs_smoking g"
| "category_field Frightening_intense g = frightening_intense g"

section \<open>The scraper: requests\<close>

text \<open>
  What one call of \<^verbatim>\<open>session.get\<close> does: a response with its status code and text, or a
  \<^verbatim>\<open>requests.RequestException\<close> (a timeout, a connection error). The network is a
  function from the index of the attempt to its outcome.
\<close>

datatype attempt_outcome = Response int pystr | RequestException pystr

text \<open>
  What \<^verbatim>\<open>_make_request\<close> leaves behind: the response it returns (\<open>None\<close> for Python's
  \<^verbatim>\<open>None\<close>), the number of calls of \<^verbatim>\<open>session.get\<close>, and the arguments of \<^verbatim>\<open>time.sleep\<close>
  as multiples of \<^verbatim>\<open>retry_delay\<close>.
\<close>

record request_result =
  response :: "(int \<times> pystr) option"
  attempts :: nat
  sleeps :: "int list"

text \<open>
  The loop \<^verbatim>\<open>for attempt in range(self.max_retries)\<close>; \<open>n\<close> counts the iterations left.
  Only status 200 returns; 429 sleeps \<^verbatim>\<open>retry_delay * (attempt + 2)\<close>; every failed attempt
  but the last sleeps \<^verbatim>\<open>retry_delay * (attempt + 1)\<close>.
\<close>

fun request_loop ::
  "int \<Rightarrow> (nat \<Rightarrow> attempt_outcome) \<Rightarrow> nat \<Rightarrow> nat \<Rightarrow> int list \<Rightarrow> request_result" where
  "request_loop max_retries get 0 attempt slept =
     \<lparr> response = None, attempts = attempt, sleeps = slept \<rparr>"
| "request_loop max_retries get (Suc n) attempt slept =
     (case get attempt of
        Response status_code body \<Rightarrow>
          if status_code = 200
          then \<lparr> response = Some (status_code, body), attempts = Suc attempt, sleeps = slept \<rparr>
          else
            (let slept1 = (if status_code = 403 then slept
                           else if status_code = 429 then slept @ [int attempt + 2]
                           else slept);
                 slept2 = (if int attempt < max_retries - 1 then slept1 @ [int attempt + 1]
                           else slept1)
             in request_loop max_retries get n (Suc attempt) slept2)
      | RequestException e \<Rightarrow>
          (let slept2 = (if int attempt < max_retries - 1 then slept @ [int attempt + 1]
                         else slept)
           in request_loop max_retries get n (Suc attempt) slept2))"

definition make_request :: "int \<Rightarrow> (nat \<Rightarrow> attempt_outcome) \<Rightarrow> request_result" where
  "make_request max_retries get = request_loop max_retries get (nat max_retries) 0 []"

text \<open>
  \<^verbatim>\<open>scrape\<close>: the id gets its \<^verbatim>\<open>tt\<close>, the page is requested, and the record is built from
  the text of the response. \<open>http\<close> gives, for a url, the outcomes of the attempts.
\<close>

definition scrape ::
  "pylib \<Rightarrow> int \<Rightarrow> (pystr \<Rightarrow> nat \<Rightarrow> attempt_outcome) \<Rightarrow> pystr \<Rightarrow> parental_guide option" where
  "scrape lib max_retries http imdb_id0 =
     (let imdb_id1 = (if \<not> startswith imdb_id0 (ustr ''tt'') then ustr ''tt'' @ imdb_id0
                      else imdb_id0);
          url1 = BASE_URL @ ustr ''/title/'' @ imdb_id1 @ ustr ''/parentalguide/''
      in case response (make_request max_retries (http url1)) of
           None \<Rightarrow> None
         | Some (status_code, html_content) \<Rightarrow> Some (extract_guide lib imdb_id1 url1 html_content))"

section \<open>The batch: JSON values and files\<close>

text \<open>
  The values that \<^verbatim>\<open>json.load\<close> returns and \<^verbatim>\<open>json.dump\<close> writes. A \<^verbatim>\<open>dict\<close> is the list
  of its items in insertion order (each key once). A number with a fraction or an exponent
  is a \<^verbatim>\<open>float\<close>, kept as its mantissa and decimal exponent. The local variables
  \<^verbatim>\<open>results\<close> and \<^verbatim>\<open>failed\<close> of \<^verbatim>\<open>batch_scrape\<close> are such values: after a resume they
  are whatever the checkpoint file held.
\<close>

datatype json =
    JNull
  | JBool bool
  | JInt int
  | JFloat int int
  | JStr pystr
  | JList "json list"
  | JObj "(pystr \<times> json) list"

text \<open>The content of a file that is read as JSON: text that does not parse, or a value.\<close>

datatype file_content = NotJSON | JSON json

datatype py_exc = JSONDecodeError | AttributeError pystr | TypeError pystr

text \<open>\<^verbatim>\<open>type(v).__name__\<close>\<close>

fun type_name :: "json \<Rightarrow> pystr" where
  "type_name JNull = ustr ''NoneType''"
| "type_name (JBool b) = ustr ''bool''"
| "type_name (JInt n) = ustr ''int''"
| "type_name (JFloat m e) = ustr ''float''"
| "type_name (JStr s) = ustr ''str''"
| "type_name (JList xs) = ustr ''list''"
| "type_name (JObj kvs) = ustr ''dict''"

text \<open>The text of the \<^verbatim>\<open>AttributeError\<close> for a missing method.\<close>

definition no_attribute :: "json \<Rightarrow> pystr \<Rightarrow> pystr" where
  "no_attribute v name =
     [0x27] @ type_name v @ [0x27] @ ustr '' object has no attribute '' @ [0x27] @ name @ [0x27]"

text \<open>\<^verbatim>\<open>d.get(key, dflt)\<close>: only a \<^verbatim>\<open>dict\<close> has \<^verbatim>\<open>get\<close>.\<close>

definition py_get :: "json \<Rightarrow> pystr \<Rightarrow> json \<Rightarrow> py_exc + json" where
  "py_get d key dflt =
     (case d of
        JObj kvs \<Rightarrow> (case map_of kvs key of Some v \<Rightarrow> Inr v | None \<Rightarrow> Inr dflt)
      | _ \<Rightarrow> Inl (AttributeError (no_attribute d (ustr ''get''))))"

text \<open>
  \<^verbatim>\<open>v + 1\<close>: defined for \<^verbatim>\<open>int\<close>, \<^verbatim>\<open>bool\<close> (an \<^verbatim>\<open>int\<close> in Python) and \<^verbatim>\<open>float\<close>; a
  \<^verbatim>\<open>TypeError\<close> for every other value. The sum with a float is a float, whose value the
  program never uses: it is kept as the float it came from.
\<close>

fun py_add_one :: "json \<Rightarrow> py_exc + json" where
  "py_add_one (JInt n) = Inr (JInt (n + 1))"
| "py_add_one (JBool b) = Inr (JInt ((if b then 1 else 0) + 1))"
| "py_add_one (JFloat m e) = Inr (JFloat m e)"
| "py_add_one v = Inl (TypeError (ustr ''unsupported operand type(s) for +''))"

text \<open>
  \<^verbatim>\<open>imdb_ids[start_index:]\<close>: a negative index counts from the end (and stops at the
  start); an index that is not an integer is a \<^verbatim>\<open>TypeError\<close>.
\<close>

definition py_slice_from :: "'a list \<Rightarrow> int \<Rightarrow> 'a list" where
  "py_slice_from xs start =
     (if start \<ge> 0 then drop (nat start) xs else drop (nat (int (length xs) + start)) xs)"

text \<open>\<^verbatim>\<open>v.append(x)\<close>: only a \<^verbatim>\<open>list\<close> has \<^verbatim>\<open>append\<close>.\<close>

definition py_append :: "json \<Rightarrow> json \<Rightarrow> py_exc + json" where
  "py_append v x =
     (case v of
        JList xs \<Rightarrow> Inr (JList (xs @ [x]))
      | _ \<Rightarrow> Inl (AttributeError (no_attribute v (ustr ''append''))))"

text \<open>\<^verbatim>\<open>len(v)\<close>: of a list, a string or a dict; a \<^verbatim>\<open>TypeError\<close> otherwise.\<close>

definition py_len :: "json \<Rightarrow> py_exc + int" where
  "py_len v =
     (case v of
        JList xs \<Rightarrow> Inr (int (length xs))
      | JStr s \<Rightarrow> Inr (int (length s))
      | JObj kvs \<Rightarrow> Inr (int (length kvs))
      | _ \<Rightarrow> Inl (TypeError (ustr ''object has no len()'')))"

text \<open>\<^verbatim>\<open>str(e)\<close> of an exception of the model.\<close>

fun exc_text :: "py_exc \<Rightarrow> pystr" where
  "exc_text JSONDecodeError = ustr ''Expecting value''"
| "exc_text (AttributeError m) = m"
| "exc_text (TypeError m) = m"

text \<open>
  The files of the output directory that \<^verbatim>\<open>batch_scrape\<close> reads and writes: the
  checkpoint, the summary, and the guides written by \<^verbatim>\<open>save_to_json\<close> (the id of the file
  name and the record, in the order of writing).
\<close>

record filesystem =
  checkpoint :: "file_content option"
  summary :: "file_content option"
  guide_files :: "(pystr \<times> parental_guide) list"

text \<open>
  What the body of the \<^verbatim>\<open>try\<close> does for one id before anything is appended:
  \<^verbatim>\<open>scraper.scrape\<close> returns a guide (then saved) or \<^verbatim>\<open>None\<close>, or an exception is raised
  (its \<^verbatim>\<open>str\<close> is kept). The outcome is a function of the id.
\<close>

datatype scrape_outcome = Guide parental_guide | NoGuide | Raises pystr

text \<open>The outcome for an id when nothing but the scraper of this program can fail.\<close>

definition scraper_outcome ::
  "pylib \<Rightarrow> (pystr \<Rightarrow> nat \<Rightarrow> attempt_outcome) \<Rightarrow> pystr \<Rightarrow> scrape_outcome" where
  "scraper_outcome lib http i = (case scrape lib 3 http i of Some g \<Rightarrow> Guide g | None \<Rightarrow> NoGuide)"

section \<open>The batch: \<^verbatim>\<open>batch_scrape\<close>\<close>

text \<open>The local variables \<^verbatim>\<open>results\<close> and \<^verbatim>\<open>failed\<close>, and the files.\<close>

record batch_state =
  results :: json
  failed :: json
  files :: filesystem

definition success_entry :: "pystr \<Rightarrow> pystr \<Rightarrow> json" where
  "success_entry i t =
     JObj [(ustr ''imdb_id'', JStr i), (ustr ''status'', JStr (ustr ''success'')),
           (ustr ''title'', JStr t)]"

definition failed_entry :: "pystr \<Rightarrow> pystr \<Rightarrow> json" where
  "failed_entry i e = JObj [(ustr ''imdb_id'', JStr i), (ustr ''error'', JStr e)]"

text \<open>
  \<^verbatim>\<open>failed.append({"imdb_id": imdb_id, "error": msg})\<close> in the \<^verbatim>\<open>except\<close> clause: an
  exception there leaves the function, with the files as they are.
\<close>

definition record_failure ::
  "pystr \<Rightarrow> pystr \<Rightarrow> batch_state \<Rightarrow> (py_exc \<times> filesystem) + batch_state" where
  "record_failure i msg st =
     (case py_append (failed st) (failed_entry i msg) of
        Inl e \<Rightarrow> Inl (e, files st)
      | Inr f \<Rightarrow> Inr (st\<lparr> failed := f \<rparr>))"

text \<open>
  The \<^verbatim>\<open>try\<close> statement for one id. An exception of the body (also the \<^verbatim>\<open>AttributeError\<close>
  of an \<^verbatim>\<open>append\<close> on a value that is no list) goes to the \<^verbatim>\<open>except\<close> clause.
\<close>

definition try_item ::
  "(pystr \<Rightarrow> scrape_outcome) \<Rightarrow> pystr \<Rightarrow> batch_state \<Rightarrow> (py_exc \<times> filesystem) + batch_state" where
  "try_item scrape_fn i st =
     (case scrape_fn i of
        Guide g \<Rightarrow>
          (let st1 = st\<lparr> files := (files st)\<lparr> guide_files := guide_files (files st) @ [(i, g)] \<rparr> \<rparr>
           in case py_append (results st1) (success_entry i (title g)) of
                Inr r \<Rightarrow> Inr (st1\<lparr> results := r \<rparr>)
              | Inl e \<Rightarrow> record_failure i (exc_text e) st1)
      | NoGuide \<Rightarrow>
          (case py_append (failed st) (failed_entry i (ustr ''scrape returned None'')) of
             Inr f \<Rightarrow> Inr (st\<lparr> failed := f \<rparr>)
           | Inl e \<Rightarrow> record_failure i (exc_text e) st)
      | Raises msg \<Rightarrow> record_failure i msg st)"

definition checkpoint_value :: "int \<Rightarrow> batch_state \<Rightarrow> json" where
  "checkpoint_value i st =
     JObj [(ustr ''last_index'', JInt i), (ustr ''results'', results st),
           (ustr ''failed'', failed st)]"

text \<open>
  One iteration for the id at index \<open>i\<close>: the \<^verbatim>\<open>try\<close> statement, then the checkpoint when
  \<^verbatim>\<open>(i + 1) % 10 == 0\<close>. The sleep between two ids (\<^verbatim>\<open>delay\<close> and a random part) changes
  no variable and no file, and is left out.
\<close>

definition process_item ::
  "(pystr \<Rightarrow> scrape_outcome) \<Rightarrow> int \<Rightarrow> pystr \<Rightarrow> batch_state
     \<Rightarrow> (py_exc \<times> filesystem) + batch_state" where
  "process_item scrape_fn i x st =
     (case try_item scrape_fn x st of
        Inl e \<Rightarrow> Inl e
      | Inr st1 \<Rightarrow>
          if (i + 1) mod 10 = 0
          then Inr (st1\<lparr> files := (files st1)\<lparr> checkpoint := Some (JSON (checkpoint_value i st1)) \<rparr> \<rparr>)
          else Inr st1)"

text \<open>The loop \<^verbatim>\<open>for i, imdb_id in enumerate(imdb_ids[start_index:], start=start_index)\<close>.\<close>

fun batch_loop ::
  "(pystr \<Rightarrow> scrape_outcome) \<Rightarrow> int \<Rightarrow> pystr list \<Rightarrow> batch_state
     \<Rightarrow> (py_exc \<times> filesystem) + batch_state" where
  "batch_loop scrape_fn i [] st = Inr st"
| "batch_loop scrape_fn i (x # xs) st =
     (case process_item scrape_fn i x st of
        Inl e \<Rightarrow> Inl e
      | Inr st1 \<Rightarrow> batch_loop scrape_fn (i + 1) xs st1)"

text \<open>
  The start of \<^verbatim>\<open>batch_scrape\<close>: the checkpoint is read when the file exists and
  \<^verbatim>\<open>start_index == 0\<close>. The result is the start index (a number) with the two lists.
\<close>

definition load_checkpoint :: "filesystem \<Rightarrow> int \<Rightarrow> py_exc + (json \<times> json \<times> json)" where
  "load_checkpoint fs start_index =
     (case checkpoint fs of
        Some content \<Rightarrow>
          if start_index = 0 then
            (case content of
               NotJSON \<Rightarrow> Inl JSONDecodeError
             | JSON ck \<Rightarrow>
                 (case py_get ck (ustr ''last_index'') (JInt 0) of
                    Inl e \<Rightarrow> Inl e
                  | Inr last_index \<Rightarrow>
                      (case py_add_one last_index of
                         Inl e \<Rightarrow> Inl e
                       | Inr start \<Rightarrow>
                           (case py_get ck (ustr ''results'') (JList []) of
                              Inl e \<Rightarrow> Inl e
                            | Inr r \<Rightarrow>
                                (case py_get ck (ustr ''failed'') (JList []) of
                                   Inl e \<Rightarrow> Inl e
                                 | Inr f \<Rightarrow> Inr (start, r, f))))))
          else Inr (JInt start_index, JList [], JList [])
      | None \<Rightarrow> Inr (JInt start_index, JList [], JList []))"

definition summary_value :: "int \<Rightarrow> int \<Rightarrow> int \<Rightarrow> json \<Rightarrow> json" where
  "summary_value n_total n_success n_failed f =
     JObj [(ustr ''total'', JInt n_total), (ustr ''success'', JInt n_success),
           (ustr ''failed_count'', JInt n_failed), (ustr ''failed'', f)]"

text \<open>
  The end of \<^verbatim>\<open>batch_scrape\<close>: the summary file is opened for writing (and so emptied)
  before the two \<^verbatim>\<open>len\<close> are taken; then the checkpoint file is removed.
\<close>

datatype run = Raised py_exc filesystem | Returned batch_state

definition finalize :: "int \<Rightarrow> batch_state \<Rightarrow> run" where
  "finalize n_total st =
     (let opened = (files st)\<lparr> summary := Some NotJSON \<rparr> in
      case py_len (results st) of
        Inl e \<Rightarrow> Raised e opened
      | Inr n_success \<Rightarrow>
          (case py_len (failed st) of
             Inl e \<Rightarrow> Raised e opened
           | Inr n_failed \<Rightarrow>
               Returned (st\<lparr> files := (files st)\<lparr>
                 summary := Some (JSON (summary_value n_total n_success n_failed (failed st))),
                 checkpoint := None \<rparr> \<rparr>)))"

text \<open>
  The state of the run when the loop has gone through at most \<open>n\<close> ids and the process is
  stopped there (\<open>None\<close> for no limit: the loop runs to its end). An exception before or in
  the loop is on the left, with the files as they are then.
\<close>

definition run_loop ::
  "(pystr \<Rightarrow> scrape_outcome) \<Rightarrow> pystr list \<Rightarrow> int \<Rightarrow> filesystem \<Rightarrow> nat option
     \<Rightarrow> (py_exc \<times> filesystem) + batch_state" where
  "run_loop scrape_fn imdb_ids start_index fs limit =
     (case load_checkpoint fs start_index of
        Inl e \<Rightarrow> Inl (e, fs)
      | Inr (start, r, f) \<Rightarrow>
          (case start of
             JInt s \<Rightarrow>
               (let todo = py_slice_from imdb_ids s;
                    todo1 = (case limit of None \<Rightarrow> todo | Some n \<Rightarrow> take n todo)
                in batch_loop scrape_fn s todo1 \<lparr> results = r, failed = f, files = fs \<rparr>)
           | _ \<Rightarrow> Inl (TypeError (ustr ''slice indices must be integers''), fs)))"

definition batch_scrape ::
  "(pystr \<Rightarrow> scrape_outcome) \<Rightarrow> pystr list \<Rightarrow> int \<Rightarrow> filesystem \<Rightarrow> run" where
  "batch_scrape scrape_fn imdb_ids start_index fs =
     (case run_loop scrape_fn imdb_ids start_index fs None of
        Inl (e, fs1) \<Rightarrow> Raised e fs1
      | Inr st \<Rightarrow> finalize (int (length imdb_ids)) st)"

text \<open>
  A run that is stopped after \<open>n\<close> ids leaves the files of its last state; the locals are
  lost.
\<close>

definition interrupted_files ::
  "(pystr \<Rightarrow> scrape_outcome) \<Rightarrow> pystr list \<Rightarrow> int \<Rightarrow> filesystem \<Rightarrow> nat \<Rightarrow> filesystem option" where
  "interrupted_files scrape_fn imdb_ids start_index fs n =
     (case run_loop scrape_fn imdb_ids start_index fs (Some n) of
        Inl _ \<Rightarrow> None
      | Inr st \<Rightarrow> Some (files st))"

text \<open>The id of an entry of \<^verbatim>\<open>results\<close> or \<^verbatim>\<open>failed\<close>.\<close>

definition entry_id :: "json \<Rightarrow> pystr option" where
  "entry_id e =
     (case e of
        JObj kvs \<Rightarrow> (case map_of kvs (ustr ''imdb_id'') of Some (JStr i) \<Rightarrow> Some i | _ \<Rightarrow> None)
      | _ \<Rightarrow> None)"

text \<open>The elements of a value that is a list.\<close>

definition elements :: "json \<Rightarrow> json list" where
  "elements v = (case v of JList xs \<Rightarrow> xs | _ \<Rightarrow> [])"

section \<open>The translation pass: \<^verbatim>\<open>translate_items\<close>\<close>

text \<open>
  \<^verbatim>\<open>s.split(sep)\<close> for a separator that is not empty: the occurrences of \<open>sep\<close> from the
  left, not overlapping; \<open>cur\<close> is the piece being collected.
\<close>

function py_split :: "pystr \<Rightarrow> pystr \<Rightarrow> pystr \<Rightarrow> pystr list" where
  "py_split sep cur [] = [cur]"
| "py_split sep cur (c # t) =
     (if sep \<noteq> [] \<and> startswith (c # t) sep
      then cur # py_split sep [] (drop (length sep - 1) t)
      else py_split sep (cur @ [c]) t)"
  by pat_completeness auto
termination
  by (relation "measure (\<lambda>(sep, cur, s). length s)") auto

text \<open>
  What one call of \<^verbatim>\<open>client.chat.completions.create\<close> gives: the content of the first
  choice, or an exception (of the call, or of reading the response). The request is the
  same at every attempt, so the service is a function of the index of the attempt.
\<close>

datatype service_outcome = Content pystr | ServiceError pystr

text \<open>
  \<^verbatim>\<open>[item.strip() for item in translated_text.split("---") if item.strip()]\<close> for the
  stripped content.
\<close>

definition split_translated :: "pystr \<Rightarrow> pystr list" where
  "split_translated content =
     filter (\<lambda>item. item \<noteq> []) (map py_strip (py_split (ustr ''---'') [] (py_strip content)))"

text \<open>
  The repair of a count that does not match: a shorter list is extended by
  \<^verbatim>\<open>items[len(translated_items):]\<close>, a longer one cut to \<^verbatim>\<open>translated_items[:len(items)]\<close>.
\<close>

definition fix_count :: "pystr list \<Rightarrow> pystr list \<Rightarrow> pystr list" where
  "fix_count originals translated_items =
     (if length translated_items \<noteq> length originals then
        (if length translated_items < length originals
         then translated_items @ drop (length translated_items) originals
         else take (length originals) translated_items)
      else translated_items)"

text \<open>
  What \<^verbatim>\<open>translate_items\<close> leaves behind: the list it returns (\<open>None\<close> for Python's
  \<^verbatim>\<open>None\<close>), the number of calls of the service, and the arguments of \<^verbatim>\<open>time.sleep\<close>.
\<close>

record translate_result =
  translation :: "pystr list option"
  service_calls :: nat
  backoffs :: "int list"

text \<open>The loop \<^verbatim>\<open>for attempt in range(max_retries)\<close>; \<open>n\<close> counts the iterations left.\<close>

fun translate_loop ::
  "(nat \<Rightarrow> service_outcome) \<Rightarrow> pystr list \<Rightarrow> int \<Rightarrow> nat \<Rightarrow> nat \<Rightarrow> int list \<Rightarrow> translate_result" where
  "translate_loop service originals max_retries 0 attempt slept =
     \<lparr> translation = None, service_calls = attempt, backoffs = slept \<rparr>"
| "translate_loop service originals max_retries (Suc n) attempt slept =
     (case service attempt of
        Content content \<Rightarrow>
          \<lparr> translation = Some (fix_count originals (split_translated content)),
            service_calls = Suc attempt, backoffs = slept \<rparr>
      | ServiceError e \<Rightarrow>
          translate_loop service originals max_retries n (Suc attempt)
            (if int attempt < max_retries - 1 then slept @ [2 ^ (attempt + 1)] else slept))"

definition translate_items :: "(nat \<Rightarrow> service_outcome) \<Rightarrow> pystr list \<Rightarrow> int \<Rightarrow> translate_result" where
  "translate_items service originals max_retries =
     (if originals = [] then \<lparr> translation = Some [], service_calls = 0, backoffs = [] \<rparr>
      else translate_loop service originals max_retries (nat max_retries) 0 [])"

section \<open>Properties of the requests\<close>

lemma request_loop_attempts:
  "attempts (request_loop mr get n a sl) \<le> a + n"
proof (induction n arbitrary: a sl)
  case 0
  then show ?case by simp
next
  case (Suc n)
  have ih: "\<And>sl'. attempts (request_loop mr get n (Suc a) sl') \<le> Suc (a + n)"
    using Suc.IH [of "Suc a"] by simp
  show ?case
    by (auto split: attempt_outcome.splits simp: Let_def ih)
qed

lemma request_loop_success:
  "k < n \<Longrightarrow> \<forall>j<k. \<forall>b. get (a + j) \<noteq> Response 200 b \<Longrightarrow> get (a + k) = Response 200 body \<Longrightarrow>
   response (request_loop mr get n a sl) = Some (200, body) \<and>
   attempts (request_loop mr get n a sl) = Suc (a + k)"
proof (induction n arbitrary: a sl k)
  case 0
  then show ?case by simp
next
  case (Suc n)
  show ?case
  proof (cases k)
    case 0
    with Suc.prems show ?thesis by simp
  next
    case (Suc k')
    from Suc.prems(2) have first: "\<forall>b. get a \<noteq> Response 200 b"
      using Suc by (metis add.right_neutral zero_less_Suc)
    have rest: "\<forall>j<k'. \<forall>b. get (Suc a + j) \<noteq> Response 200 b"
      using Suc.prems(2) Suc by (metis Suc_less_eq add_Suc_shift)
    have hit: "get (Suc a + k') = Response 200 body"
      using Suc.prems(3) Suc by simp
    have lt: "k' < n" using Suc.prems(1) Suc by simp
    note ih = Suc.IH [OF lt rest hit]
    show ?thesis
      using first ih Suc by (auto split: attempt_outcome.splits simp: Let_def)
  qed
qed

lemma request_loop_exhausted:
  "\<forall>j<n. \<forall>b. get (a + j) \<noteq> Response 200 b \<Longrightarrow>
   response (request_loop mr get n a sl) = None \<and>
   attempts (request_loop mr get n a sl) = a + n"
proof (induction n arbitrary: a sl)
  case 0
  then show ?case by simp
next
  case (Suc n)
  have first: "\<forall>b. get a \<noteq> Response 200 b"
    using Suc.prems by (metis add.right_neutral zero_less_Suc)
  have rest: "\<forall>j<n. \<forall>b. get (Suc a + j) \<noteq> Response 200 b"
    using Suc.prems by (metis Suc_less_eq add_Suc_shift)
  note ih = Suc.IH [OF rest]
  show ?case
    using first ih by (auto split: attempt_outcome.splits simp: Let_def)
qed

text \<open>
  Claim C5, as the code has it. \<^verbatim>\<open>_make_request\<close> calls \<^verbatim>\<open>session.get\<close> at most
  \<open>max_retries\<close> times (not at all when \<open>max_retries\<close> is not positive). The first attempt
  whose response has status 200, when there is one among the first \<open>max_retries\<close>, ends the
  loop: its response is returned and no further attempt is made. When none of the
  \<open>max_retries\<close> attempts answers 200 (each is another status, a timeout or a connection
  error), the result is \<open>None\<close>, a value and no exception, after exactly \<open>max_retries\<close>
  attempts.
\<close>

theorem make_request_policy:
  "int (attempts (make_request max_retries get)) \<le> max 0 max_retries \<and>
   (\<forall>k body. int k < max_retries \<and> (\<forall>j<k. \<forall>b. get j \<noteq> Response 200 b) \<and>
        get k = Response 200 body \<longrightarrow>
      response (make_request max_retries get) = Some (200, body) \<and>
      attempts (make_request max_retries get) = Suc k) \<and>
   ((\<forall>j. int j < max_retries \<longrightarrow> (\<forall>b. get j \<noteq> Response 200 b)) \<longrightarrow>
      response (make_request max_retries get) = None \<and>
      attempts (make_request max_retries get) = nat max_retries)"
proof (intro conjI allI impI)
  show "int (attempts (make_request max_retries get)) \<le> max 0 max_retries"
    using request_loop_attempts [of max_retries get "nat max_retries" 0 "[]"]
    by (simp add: make_request_def)
next
  fix k body
  assume h: "int k < max_retries \<and> (\<forall>j<k. \<forall>b. get j \<noteq> Response 200 b) \<and> get k = Response 200 body"
  then have "k < nat max_retries" by linarith
  with h request_loop_success [of k "nat max_retries" get 0 body max_retries "[]"]
  show "response (make_request max_retries get) = Some (200, body)"
    and "attempts (make_request max_retries get) = Suc k"
    by (simp_all add: make_request_def)
next
  assume h: "\<forall>j. int j < max_retries \<longrightarrow> (\<forall>b. get j \<noteq> Response 200 b)"
  then have "\<forall>j<nat max_retries. \<forall>b. get (0 + j) \<noteq> Response 200 b" by auto
  from request_loop_exhausted [OF this, of max_retries "[]"]
  show "response (make_request max_retries get) = None"
    and "attempts (make_request max_retries get) = nat max_retries"
    by (simp_all add: make_request_def)
qed

text \<open>
  Claim C5 as stated fails: a response with status 204 is a 2xx response, and it does not
  end the loop. Three such responses exhaust the three attempts and the result is \<open>None\<close>.
\<close>

theorem make_request_2xx_counterexample:
  "(200::int) \<le> 204 \<and> (204::int) < 300 \<and>
   response (make_request 3 (\<lambda>k. Response 204 (ustr ''ok''))) = None \<and>
   attempts (make_request 3 (\<lambda>k. Response 204 (ustr ''ok''))) = 3"
  by (simp add: make_request_def numeral_3_eq_3 Let_def)

text \<open>The policy on a success at the second attempt and on three timeouts.\<close>

theorem make_request_policy_witness:
  "response (make_request 3 (\<lambda>k. if k = 1 then Response 200 (ustr ''page'') else Response 429 []))
     = Some (200, ustr ''page'') \<and>
   attempts (make_request 3 (\<lambda>k. if k = 1 then Response 200 (ustr ''page'') else Response 429 []))
     = 2 \<and>
   response (make_request 3 (\<lambda>k. RequestException (ustr ''timeout''))) = None \<and>
   attempts (make_request 3 (\<lambda>k. RequestException (ustr ''timeout''))) = 3"
  using make_request_policy [of 3 "\<lambda>k. if k = 1 then Response 200 (ustr ''page'') else Response 429 []"]
    make_request_policy [of 3 "\<lambda>k. RequestException (ustr ''timeout'')"]
  by (simp add: make_request_def numeral_3_eq_3 Let_def)

section \<open>Properties of the translation pass\<close>

lemma length_fix_count: "length (fix_count originals tr) = length originals"
  by (simp add: fix_count_def)

lemma fix_count_pad_or_cut:
  "fix_count originals tr =
     (if length tr < length originals then tr @ drop (length tr) originals
      else take (length originals) tr)"
  by (simp add: fix_count_def)

lemma translate_loop_length:
  "translation (translate_loop service originals mr n a sl) = Some ys \<Longrightarrow>
   length ys = length originals"
  by (induction n arbitrary: a sl)
     (auto split: service_outcome.splits simp: length_fix_count)

lemma translate_loop_first_content:
  "k < n \<Longrightarrow> \<forall>j<k. \<exists>e. service (a + j) = ServiceError e \<Longrightarrow> service (a + k) = Content content \<Longrightarrow>
   translation (translate_loop service originals mr n a sl)
     = Some (fix_count originals (split_translated content)) \<and>
   service_calls (translate_loop service originals mr n a sl) = Suc (a + k)"
proof (induction n arbitrary: a sl k)
  case 0
  then show ?case by simp
next
  case (Suc n)
  show ?case
  proof (cases k)
    case 0
    with Suc.prems show ?thesis by simp
  next
    case (Suc k')
    from Suc.prems(2) obtain e where first: "service a = ServiceError e"
      using Suc by (metis add.right_neutral zero_less_Suc)
    have rest: "\<forall>j<k'. \<exists>e. service (Suc a + j) = ServiceError e"
      using Suc.prems(2) Suc by (metis Suc_less_eq add_Suc_shift)
    have hit: "service (Suc a + k') = Content content"
      using Suc.prems(3) Suc by simp
    have lt: "k' < n" using Suc.prems(1) Suc by simp
    note ih = Suc.IH [OF lt rest hit]
    show ?thesis
      using first ih Suc by simp
  qed
qed

text \<open>
  Claim C8. For the empty list \<^verbatim>\<open>translate_items\<close> returns the empty list and the service
  is not called. Whenever it returns a list at all, the list is as long as the input. When
  an attempt within \<open>max_retries\<close> is the first to get an answer from the service, the
  answer's \<open>m\<close> items are returned, a shorter list extended by the original items from
  position \<open>m\<close> on and a longer one cut to the length of the input.
\<close>

theorem translate_items_count:
  "translate_items service [] max_retries
     = \<lparr> translation = Some [], service_calls = 0, backoffs = [] \<rparr> \<and>
   (\<forall>ys. translation (translate_items service originals max_retries) = Some ys \<longrightarrow>
      length ys = length originals) \<and>
   (\<forall>k content. originals \<noteq> [] \<and> int k < max_retries \<and>
        (\<forall>j<k. \<exists>e. service j = ServiceError e) \<and> service k = Content content \<longrightarrow>
      translation (translate_items service originals max_retries)
        = Some (if length (split_translated content) < length originals
                then split_translated content @ drop (length (split_translated content)) originals
                else take (length originals) (split_translated content)))"
proof (intro conjI allI impI)
  show "translate_items service [] max_retries
     = \<lparr> translation = Some [], service_calls = 0, backoffs = [] \<rparr>"
    by (simp add: translate_items_def)
next
  fix ys
  assume "translation (translate_items service originals max_retries) = Some ys"
  then show "length ys = length originals"
    by (auto simp: translate_items_def dest: translate_loop_length split: if_splits)
next
  fix k content
  assume h: "originals \<noteq> [] \<and> int k < max_retries \<and>
        (\<forall>j<k. \<exists>e. service j = ServiceError e) \<and> service k = Content content"
  then have lt: "k < nat max_retries" by linarith
  from h have pre: "\<forall>j<k. \<exists>e. service (0 + j) = ServiceError e" by simp
  from h have hit: "service (0 + k) = Content content" by simp
  from translate_loop_first_content [OF lt pre hit, of originals max_retries "[]"] h
  show "translation (translate_items service originals max_retries)
        = Some (if length (split_translated content) < length originals
                then split_translated content @ drop (length (split_translated content)) originals
                else take (length originals) (split_translated content))"
    by (simp add: translate_items_def fix_count_pad_or_cut)
qed


text \<open>One item for two is padded; three for two are cut, after a failed first attempt.\<close>

theorem translate_items_count_witness:
  "translation (translate_items (\<lambda>k. Content (ustr ''x'')) [ustr ''a'', ustr ''b''] 3)
     = Some [ustr ''x'', ustr ''b''] \<and>
   translation (translate_items
       (\<lambda>k. if k = 0 then ServiceError [] else Content (ustr ''x---y---z'')) [ustr ''a'', ustr ''b''] 3)
     = Some [ustr ''x'', ustr ''y'']"
proof -
  have a: "split_translated (ustr ''x'') = [ustr ''x'']" by code_simp
  have b: "split_translated (ustr ''x---y---z'') = [ustr ''x'', ustr ''y'', ustr ''z'']" by code_simp
  show ?thesis
    using translate_items_count [of "\<lambda>k. Content (ustr ''x'')" 3 "[ustr ''a'', ustr ''b'']", THEN conjunct2, THEN conjunct2, rule_format, of 0 "ustr ''x''"]
      translate_items_count [of "\<lambda>k. if k = 0 then ServiceError [] else Content (ustr ''x---y---z'')" 3 "[ustr ''a'', ustr ''b'']", THEN conjunct2, THEN conjunct2, rule_format, of 1 "ustr ''x---y---z''"]
    by (simp add: a b)
qed

end
